theory Spec2Isabelle
  imports Main "HOL-Library.Word"
begin

section \<open>The web platform adapter (src/vector/platform/WebPlatform.js)\<close>

subsection \<open>JavaScript strings\<close>

text \<open>
  A JavaScript string is a sequence of 16-bit code units. Literals of the source are
  ASCII apart from the multiplication sign U+00D7 of the error badge.
\<close>

type_synonym jschar = "16 word"
type_synonym jsstring = "jschar list"

definition str :: "string \<Rightarrow> jsstring" where
  "str s = map (\<lambda>c. of_nat (of_char c)) s"

text \<open>
  \<open>String.prototype.trim\<close> removes WhiteSpace and LineTerminator code points from both
  ends (ECMAScript): TAB, LF, VT, FF, CR, SP, NBSP, U+1680, U+2000 to U+200A, U+2028,
  U+2029, U+202F, U+205F, U+3000 and U+FEFF. All of them are single code units.
\<close>

definition is_js_whitespace :: "jschar \<Rightarrow> bool" where
  "is_js_whitespace c \<longleftrightarrow>
     c = 0x9 \<or> c = 0xA \<or> c = 0xB \<or> c = 0xC \<or> c = 0xD \<or> c = 0x20 \<or> c = 0xA0 \<or>
     c = 0x1680 \<or> (0x2000 \<le> c \<and> c \<le> 0x200A) \<or> c = 0x2028 \<or> c = 0x2029 \<or>
     c = 0x202F \<or> c = 0x205F \<or> c = 0x3000 \<or> c = 0xFEFF"

definition trim :: "jsstring \<Rightarrow> jsstring" where
  "trim s = rev (dropWhile is_js_whitespace (rev (dropWhile is_js_whitespace s)))"

subsection \<open>The adapter instance and the host it talks to\<close>

text \<open>
  What \<open>favicon.badge\<close> is given: the count (a number) or a string.
\<close>

datatype badge_content = Count nat | Glyph jsstring

text \<open>A room object, of which only \<open>roomId\<close> is read.\<close>

record room =
  roomId :: jsstring

text \<open>
  The two function objects of \<open>displayNotification\<close>, each with what it captures:
  the click handler (the notification and the room) and the timer callback (the
  notification). A notification is named by its position in the list of notifications
  created so far.
\<close>

datatype closure = Onclick nat room | Autoclose nat

record notification =
  title :: jsstring
  body :: jsstring
  icon :: jsstring
  tag :: jsstring
  silent :: bool
  onclick :: "closure option"
  closed :: bool

text \<open>
  The options object handed to \<open>request\<close>, with its properties \<open>method\<close>, \<open>url\<close>
  and \<open>qs\<close>.
\<close>

record request =
  http_method :: jsstring
  url :: jsstring
  qs :: "(string \<times> int) list"

text \<open>
  What a version promise is rejected with: the transport error of the request library
  (its message), or the object \<open>{ status: response.status }\<close>.
\<close>

datatype fetch_error = Transport jsstring | Status int

text \<open>
  Calls that leave the adapter, in the order they are made. An action record handed to
  \<open>dis.dispatch\<close> is the list of its properties.
\<close>

datatype event =
    Badge badge_content jsstring
  | Console_warn jsstring
  | Console_error jsstring fetch_error
  | Dispatch "(string \<times> jsstring) list"
  | Http request
  | Focus
  | Notification_close nat

text \<open>
  The fields of \<open>this\<close> (\<open>notificationCount\<close>, \<open>errorDidOccur\<close>, \<open>runningVersion\<close>,
  \<open>favicon\<close>) together with the host: the trace of outgoing calls, the notifications
  created, and the pending timers (callback and delay in milliseconds). The state of
  the Favico object is of a type \<open>'f\<close> the adapter never looks into.
\<close>

record 'f platform =
  notificationCount :: nat
  errorDidOccur :: bool
  runningVersion :: "jsstring option"
  favicon :: 'f
  trace :: "event list"
  notifications :: "notification list"
  timers :: "(closure \<times> nat) list"

definition emit :: "event \<Rightarrow> 'f platform \<Rightarrow> 'f platform" where
  "emit e s = s\<lparr>trace := trace s @ [e]\<rparr>"

subsection \<open>Badge\<close>

text \<open>
  A call either returns, with the state it leaves (\<open>Inr\<close>), or throws, with the
  thrown value and the state at that moment (\<open>Inl\<close>).
\<close>

type_synonym ('e, 'f) outcome = "('e \<times> 'f platform) + 'f platform"

text \<open>
  \<open>favicon.badge(notif, {bgColor})\<close> belongs to the Favico library: it is a parameter
  \<open>badge\<close>, which from the renderer's state either returns with a new renderer state
  or throws an exception (its message), leaving a renderer state too.
\<close>

type_synonym 'f renderer = "'f \<Rightarrow> badge_content \<Rightarrow> jsstring \<Rightarrow> (jsstring \<times> 'f) + 'f"

text \<open>\<open>notif || "\<times>"\<close> on a number: zero is falsy.\<close>

definition times_glyph :: jsstring where
  "times_glyph = [0xD7]"

definition or_glyph :: "nat \<Rightarrow> badge_content" where
  "or_glyph n = (if n = 0 then Glyph times_glyph else Count n)"

text \<open>\<open>_updateFavicon\<close>, lines 41 to 60: the \<open>try\<close> block, then the whole method.\<close>

definition updateFavicon_try :: "'f renderer \<Rightarrow> 'f platform \<Rightarrow> (jsstring, 'f) outcome" where
  "updateFavicon_try badge s =
     (let bgColor = str ''#d00'';
          notif = Count (notificationCount s);
          (notif, bgColor) =
            (if errorDidOccur s then (or_glyph (notificationCount s), str ''#f00'')
             else (notif, bgColor));
          s = emit (Badge notif bgColor) s
      in case badge (favicon s) notif bgColor of
           Inl (message, f) \<Rightarrow> Inl (message, s\<lparr>favicon := f\<rparr>)
         | Inr f \<Rightarrow> Inr (s\<lparr>favicon := f\<rparr>))"

definition updateFavicon :: "'f renderer \<Rightarrow> 'f platform \<Rightarrow> (jsstring, 'f) outcome" where
  "updateFavicon badge s =
     (case updateFavicon_try badge s of
        Inl (message, s) \<Rightarrow>
          Inr (emit (Console_warn (str ''Failed to set badge count: '' @ message)) s)
      | Inr s \<Rightarrow> Inr s)"

text \<open>
  Modelled from the spec: the base-class setters \<open>super.setNotificationCount\<close> and
  \<open>super.setErrorStatus\<close>, which are defined in the platform base class outside this
  file. The spec: "stores \<open>count\<close>", "stores \<open>flag\<close>".
\<close>

definition super_setNotificationCount :: "nat \<Rightarrow> 'f platform \<Rightarrow> 'f platform" where
  "super_setNotificationCount count s = s\<lparr>notificationCount := count\<rparr>"

definition super_setErrorStatus :: "bool \<Rightarrow> 'f platform \<Rightarrow> 'f platform" where
  "super_setErrorStatus flag s = s\<lparr>errorDidOccur := flag\<rparr>"

text \<open>\<open>setNotificationCount\<close> and \<open>setErrorStatus\<close>, lines 62 to 72.\<close>

definition setNotificationCount ::
  "'f renderer \<Rightarrow> nat \<Rightarrow> 'f platform \<Rightarrow> (jsstring, 'f) outcome" where
  "setNotificationCount badge count s =
     (if notificationCount s = count then Inr s
      else updateFavicon badge (super_setNotificationCount count s))"

definition setErrorStatus ::
  "'f renderer \<Rightarrow> bool \<Rightarrow> 'f platform \<Rightarrow> (jsstring, 'f) outcome" where
  "setErrorStatus badge flag s =
     (if errorDidOccur s = flag then Inr s
      else updateFavicon badge (super_setErrorStatus flag s))"

text \<open>
  The constructor, lines 30 to 39, applied to the object as \<open>super()\<close> leaves it;
  \<open>new_favico\<close> is the renderer state that \<open>new Favico({animation: 'none'})\<close> makes.
\<close>

definition constructor :: "'f renderer \<Rightarrow> 'f \<Rightarrow> 'f platform \<Rightarrow> (jsstring, 'f) outcome" where
  "constructor badge new_favico s =
     updateFavicon badge (s\<lparr>runningVersion := None, favicon := new_favico\<rparr>)"

text \<open>
  Reading a trace: the events a call added, and the calls of \<open>favicon.badge\<close> among
  some events.
\<close>

definition new_events :: "'f platform \<Rightarrow> 'f platform \<Rightarrow> event list" where
  "new_events s s' = drop (length (trace s)) (trace s')"

fun badge_calls :: "event list \<Rightarrow> (badge_content \<times> jsstring) list" where
  "badge_calls [] = []"
| "badge_calls (Badge notif bgColor # es) = (notif, bgColor) # badge_calls es"
| "badge_calls (e # es) = badge_calls es"

subsection \<open>Notifications\<close>

text \<open>
  \<open>notification.close()\<close>. A closure only ever names a notification that exists (it
  captures the object); for any other number the update leaves the list as it is.
\<close>

definition close_notification :: "nat \<Rightarrow> 'f platform \<Rightarrow> 'f platform" where
  "close_notification n s =
     emit (Notification_close n)
       (s\<lparr>notifications := (notifications s)[n := (notifications s ! n)\<lparr>closed := True\<rparr>]\<rparr>)"

text \<open>The bodies of the two function objects, lines 119 to 126 and 130 to 132.\<close>

fun run :: "closure \<Rightarrow> 'f platform \<Rightarrow> 'f platform" where
  "run (Onclick n room) s =
     (let s = emit (Dispatch [(''action'', str ''view_room''), (''room_id'', roomId room)]) s;
          s = emit Focus s
      in close_notification n s)"
| "run (Autoclose n) s = close_notification n s"

text \<open>\<open>displayNotification\<close>, lines 108 to 133.\<close>

definition displayNotification ::
  "jsstring \<Rightarrow> jsstring \<Rightarrow> jsstring \<Rightarrow> room \<Rightarrow> 'f platform \<Rightarrow> 'f platform" where
  "displayNotification ttl msg avatarUrl room s =
     (let n = length (notifications s);
          notification = \<lparr>title = ttl, body = msg, icon = avatarUrl, tag = str ''vector'',
                          silent = True, onclick = None, closed = False\<rparr>;
          notification = notification\<lparr>onclick := Some (Onclick n room)\<rparr>;
          s = s\<lparr>notifications := notifications s @ [notification]\<rparr>
      in s\<lparr>timers := timers s @ [(Autoclose n, 5 * 1000)]\<rparr>)"

text \<open>
  The host's side: a click on notification \<open>n\<close> calls its \<open>onclick\<close>; the clock
  moving on by \<open>dt\<close> milliseconds calls the timer callbacks that are due, earliest
  first, and leaves the others with so much less to wait.
\<close>

definition click :: "nat \<Rightarrow> 'f platform \<Rightarrow> 'f platform" where
  "click n s =
     (if n < length (notifications s) then
        (case onclick (notifications s ! n) of Some c \<Rightarrow> run c s | None \<Rightarrow> s)
      else s)"

definition advance :: "nat \<Rightarrow> 'f platform \<Rightarrow> 'f platform" where
  "advance dt s =
     (let due = sort_key snd (filter (\<lambda>(c, d). d \<le> dt) (timers s));
          waiting = map (\<lambda>(c, d). (c, d - dt)) (filter (\<lambda>(c, d). \<not> d \<le> dt) (timers s))
      in fold (\<lambda>(c, d). run c) due (s\<lparr>timers := waiting\<rparr>))"

datatype host_event = Click nat | Advance nat

fun host :: "host_event list \<Rightarrow> 'f platform \<Rightarrow> 'f platform" where
  "host [] s = s"
| "host (Click n # es) s = host es (click n s)"
| "host (Advance dt # es) s = host es (advance dt s)"

fun elapsed :: "host_event list \<Rightarrow> nat" where
  "elapsed [] = 0"
| "elapsed (Click n # es) = elapsed es"
| "elapsed (Advance dt # es) = dt + elapsed es"

subsection \<open>Version\<close>

text \<open>
  \<open>_getVersion\<close>, lines 135 to 161: the options of the request, with \<open>now\<close> the
  value of \<open>Date.now()\<close>, and the callback \<open>(err, response, body)\<close> with \<open>status\<close>
  for \<open>response.status\<close>, giving what the deferred is settled with (\<open>Inl\<close> rejected,
  \<open>Inr\<close> resolved). The request library passes an error object or null as \<open>err\<close>.
  The answer of the network to a request is an input: the three arguments the callback
  is called with.
\<close>

type_synonym reply = "jsstring option \<times> int \<times> jsstring"

type_synonym promise = "fetch_error + jsstring"

definition getVersion_request :: "int \<Rightarrow> request" where
  "getVersion_request now =
     \<lparr>http_method = str ''GET'', url = str ''version'', qs = [(''cachebuster'', now)]\<rparr>"

fun getVersion_callback :: "reply \<Rightarrow> promise" where
  "getVersion_callback (err, status, response_body) =
     (if err \<noteq> None \<or> status < 200 \<or> status \<ge> 300 then
        Inl (case err of None \<Rightarrow> Status status | Some e \<Rightarrow> Transport e)
      else Inr (trim response_body))"

definition getVersion :: "int \<Rightarrow> reply \<Rightarrow> 'f platform \<Rightarrow> promise \<times> 'f platform" where
  "getVersion now reply s =
     (getVersion_callback reply, emit (Http (getVersion_request now)) s)"

text \<open>
  \<open>getAppVersion\<close>, lines 163 to 168. The promise returned is given by what it is
  settled with in the end: \<open>q(this.runningVersion)\<close> is resolved from the start.
\<close>

definition getAppVersion :: "int \<Rightarrow> reply \<Rightarrow> 'f platform \<Rightarrow> promise \<times> 'f platform" where
  "getAppVersion now reply s =
     (case runningVersion s of
        Some v \<Rightarrow> (Inr v, s)
      | None \<Rightarrow> getVersion now reply s)"

text \<open>
  \<open>promise.done(onFulfilled, onRejected)\<close> of the Q library: the handler for the way
  the promise was settled runs; a rejection that has no handler is thrown, uncaught.
\<close>

definition promise_done ::
  "'e + 'a \<Rightarrow> ('a \<Rightarrow> 'f platform \<Rightarrow> 'f platform) \<Rightarrow> ('e \<Rightarrow> 'f platform \<Rightarrow> 'f platform) option \<Rightarrow>
   'f platform \<Rightarrow> ('e, 'f) outcome" where
  "promise_done settled onFulfilled onRejected s =
     (case settled of
        Inr v \<Rightarrow> Inr (onFulfilled v s)
      | Inl e \<Rightarrow> (case onRejected of Some handler \<Rightarrow> Inr (handler e s) | None \<Rightarrow> Inl (e, s)))"

text \<open>
  \<open>pollForUpdate\<close>, lines 170 to 184. The call itself only sends the request; it reads
  and writes the adapter in the handlers, when the reply has come. So a poll is taken
  here at the moment of its reply, request and handler together, and \<open>s\<close> is the state
  the handler finds. Handlers run one at a time, to their end.
\<close>

definition pollForUpdate :: "int \<Rightarrow> reply \<Rightarrow> 'f platform \<Rightarrow> (fetch_error, 'f) outcome" where
  "pollForUpdate now reply s =
     (case getVersion now reply s of (settled, s) \<Rightarrow>
        promise_done settled
          (\<lambda>ver s.
             case runningVersion s of
               None \<Rightarrow> s\<lparr>runningVersion := Some ver\<rparr>
             | Some current \<Rightarrow>
                 if current \<noteq> ver then
                   emit (Dispatch [(''action'', str ''new_version''),
                                   (''currentVersion'', current), (''newVersion'', ver)]) s
                 else s)
          (Some (\<lambda>err s. emit (Console_error (str ''Failed to poll for update'') err) s))
          s)"

text \<open>
  The host's poll loop: polls one after the other, each with the time of its call and
  its reply; an exception out of a poll ends the loop.
\<close>

fun polls :: "(int \<times> reply) list \<Rightarrow> 'f platform \<Rightarrow> (fetch_error, 'f) outcome" where
  "polls [] s = Inr s"
| "polls ((now, reply) # rest) s =
     (case pollForUpdate now reply s of
        Inl uncaught \<Rightarrow> Inl uncaught
      | Inr s \<Rightarrow> polls rest s)"

subsection \<open>Environment\<close>

text \<open>
  The global object as \<open>screenCaptureErrorString\<close> reads it: \<open>global.window\<close>, absent
  or a window with its \<open>location\<close> (\<open>href\<close> is what \<open>getDefaultDeviceDisplayName\<close>
  reads). In \<open>screenCaptureErrorString\<close>, lines 202 to 208, the protocol is read only
  when \<open>!global.window\<close> is false: the first case below is the left operand of \<open>||\<close>,
  the second the right one.
\<close>

record location =
  protocol :: jsstring
  href :: jsstring

record window =
  location :: location

record global =
  window :: "window option"

definition screenCaptureErrorString :: "global \<Rightarrow> jsstring option" where
  "screenCaptureErrorString g =
     (case window g of
        None \<Rightarrow> Some (str ''You need to be using HTTPS to place a screen-sharing call.'')
      | Some w \<Rightarrow>
          if protocol (location w) \<noteq> str ''https:'' then
            Some (str ''You need to be using HTTPS to place a screen-sharing call.'')
          else None)"

text \<open>\<open>global.window.location.protocol\<close>, where there is a window to read it from.\<close>

definition location_protocol :: "global \<Rightarrow> jsstring option" where
  "location_protocol g = map_option (\<lambda>w. protocol (location w)) (window g)"

subsection \<open>Reading a run\<close>

text \<open>
  What polls after the first add to the trace while \<open>v0\<close> is the stored version: each
  its request and, when the body it fetched trims to something else, the signal. A
  successful fetch is given by the time of the call, the status and the body.
\<close>

definition later_polls :: "jsstring \<Rightarrow> (int \<times> int \<times> jsstring) list \<Rightarrow> event list" where
  "later_polls v0 later =
     concat (map (\<lambda>(now, status, response_body).
       Http (getVersion_request now) #
         (if v0 \<noteq> trim response_body then
            [Dispatch [(''action'', str ''new_version''),
                       (''currentVersion'', v0), (''newVersion'', trim response_body)]]
          else [])) later)"

text \<open>
  The state of notification \<open>n\<close>, shown for \<open>room\<close>, when \<open>e\<close> milliseconds have gone by
  since: it has its click handler, and it is closed or its timer is still to fire,
  no later than 5000 ms after the call.
\<close>

definition pending :: "nat \<Rightarrow> room \<Rightarrow> nat \<Rightarrow> 'f platform \<Rightarrow> bool" where
  "pending n room e s \<longleftrightarrow>
     n < length (notifications s) \<and> onclick (notifications s ! n) = Some (Onclick n room) \<and>
     (closed (notifications s ! n) \<or>
      list_ex (\<lambda>(c, d). c = Autoclose n \<and> 0 < d \<and> d + e \<le> 5000) (timers s))"

subsection \<open>Concrete inputs\<close>

text \<open>
  An adapter as the constructors leave it before the first badge, with a renderer state
  of no content; a renderer that always returns and one that always throws.
\<close>

definition fresh :: "unit platform" where
  "fresh = \<lparr>notificationCount = 0, errorDidOccur = False, runningVersion = None,
            favicon = (), trace = [], notifications = [], timers = []\<rparr>"

definition badge_ok :: "unit renderer" where
  "badge_ok f notif bgColor = Inr ()"

definition badge_overflow :: "unit renderer" where
  "badge_overflow f notif bgColor = Inl (str ''Too many badges requests in queue.'', ())"

text \<open>A room, and three environments: a page on https, a page on http, no window.\<close>

definition lobby :: room where
  "lobby = \<lparr>roomId = str ''!lobby:matrix.org''\<rparr>"

definition https_page :: global where
  "https_page = \<lparr>window = Some \<lparr>location =
     \<lparr>protocol = str ''https:'', href = str ''https://riot.im/app/#/home''\<rparr>\<rparr>\<rparr>"

definition http_page :: global where
  "http_page = \<lparr>window = Some \<lparr>location =
     \<lparr>protocol = str ''http:'', href = str ''http://localhost:8080/''\<rparr>\<rparr>\<rparr>"

definition no_window :: global where
  "no_window = \<lparr>window = None\<rparr>"

section \<open>Badge: what is rendered, and when\<close>

lemma updateFavicon_returns:
  "updateFavicon badge s =
     (let notif = (if errorDidOccur s then or_glyph (notificationCount s)
                   else Count (notificationCount s));
          bgColor = (if errorDidOccur s then str ''#f00'' else str ''#d00'')
      in case badge (favicon s) notif bgColor of
           Inl (message, f) \<Rightarrow>
             Inr (s\<lparr>favicon := f,
                    trace := trace s @ [Badge notif bgColor,
                      Console_warn (str ''Failed to set badge count: '' @ message)]\<rparr>)
         | Inr f \<Rightarrow> Inr (s\<lparr>favicon := f, trace := trace s @ [Badge notif bgColor]\<rparr>))"
  by (simp add: updateFavicon_def updateFavicon_try_def emit_def Let_def
      split: sum.splits prod.splits)

lemma updateFavicon_not_thrown: "\<not> isl (updateFavicon badge s)"
  by (simp add: updateFavicon_returns Let_def split: sum.splits prod.splits)

lemma updateFavicon_cases:
  obtains s' where "updateFavicon badge s = Inr s'"
  using updateFavicon_not_thrown [of badge s] by (cases "updateFavicon badge s") auto

lemma badge_calls_updateFavicon:
  "updateFavicon badge s = Inr s' \<Longrightarrow>
   badge_calls (new_events s s') =
     [if errorDidOccur s then (or_glyph (notificationCount s), str ''#f00'')
      else (Count (notificationCount s), str ''#d00'')]"
  by (auto simp: updateFavicon_returns new_events_def Let_def
      split: sum.splits prod.splits if_splits)

lemma updateFavicon_fields:
  "updateFavicon badge s = Inr s' \<Longrightarrow>
   notificationCount s' = notificationCount s \<and> errorDidOccur s' = errorDidOccur s \<and>
   runningVersion s' = runningVersion s \<and> notifications s' = notifications s \<and>
   timers s' = timers s"
  by (auto simp: updateFavicon_returns Let_def split: sum.splits prod.splits if_splits)

lemma constructor_runningVersion:
  obtains s' where "constructor badge new_favico s = Inr s'" and "runningVersion s' = None"
proof -
  obtain s' where s': "updateFavicon badge (s\<lparr>runningVersion := None, favicon := new_favico\<rparr>) = Inr s'"
    by (rule updateFavicon_cases)
  from updateFavicon_fields [OF s'] have "runningVersion s' = None" by simp
  with s' show thesis using that by (simp add: constructor_def)
qed

text \<open>
  Claim C3. For every count \<open>n\<close> and flag \<open>e\<close> the render step calls the renderer
  once: with the error flag set, with the glyph U+00D7 when the count is zero and the
  count otherwise, on the error colour \<open>#f00\<close>; with the flag clear, with the count as
  it is (zero too) on the colour \<open>#d00\<close>.
\<close>

theorem updateFavicon_display:
  "\<not> isl (updateFavicon badge s) \<and>
   badge_calls (new_events s (projr (updateFavicon badge s))) =
     [if errorDidOccur s then
        (if notificationCount s = 0 then Glyph [0xD7] else Count (notificationCount s),
         str ''#f00'')
      else (Count (notificationCount s), str ''#d00'')]"
proof -
  obtain s' where s': "updateFavicon badge s = Inr s'"
    by (rule updateFavicon_cases)
  from badge_calls_updateFavicon [OF s'] s' show ?thesis
    by (simp add: or_glyph_def times_glyph_def)
qed

theorem updateFavicon_display_witness:
  "badge_calls (new_events (fresh\<lparr>errorDidOccur := True\<rparr>)
      (projr (updateFavicon badge_ok (fresh\<lparr>errorDidOccur := True\<rparr>))))
     = [(Glyph [0xD7], str ''#f00'')]
   \<and> badge_calls (new_events (fresh\<lparr>notificationCount := 3, errorDidOccur := True\<rparr>)
      (projr (updateFavicon badge_ok (fresh\<lparr>notificationCount := 3, errorDidOccur := True\<rparr>))))
     = [(Count 3, str ''#f00'')]
   \<and> badge_calls (new_events (fresh\<lparr>notificationCount := 3\<rparr>)
      (projr (updateFavicon badge_overflow (fresh\<lparr>notificationCount := 3\<rparr>))))
     = [(Count 3, str ''#d00'')]
   \<and> badge_calls (new_events fresh (projr (updateFavicon badge_overflow fresh)))
     = [(Count 0, str ''#d00'')]"
  using updateFavicon_display [of badge_ok "fresh\<lparr>errorDidOccur := True\<rparr>"]
    updateFavicon_display [of badge_ok "fresh\<lparr>notificationCount := 3, errorDidOccur := True\<rparr>"]
    updateFavicon_display [of badge_overflow "fresh\<lparr>notificationCount := 3\<rparr>"]
    updateFavicon_display [of badge_overflow fresh]
  by (simp add: fresh_def)

lemma setNotificationCount_same:
  "notificationCount s = v \<Longrightarrow> setNotificationCount badge v s = Inr s"
  by (simp add: setNotificationCount_def)

lemma setNotificationCount_changed:
  assumes "notificationCount s \<noteq> v"
  obtains s' where "setNotificationCount badge v s = Inr s'" and "notificationCount s' = v"
    and "errorDidOccur s' = errorDidOccur s"
    and "length (badge_calls (new_events s s')) = 1"
proof -
  let ?t = "super_setNotificationCount v s"
  obtain s' where s': "updateFavicon badge ?t = Inr s'"
    by (rule updateFavicon_cases)
  have "setNotificationCount badge v s = Inr s'"
    using assms s' by (simp add: setNotificationCount_def)
  moreover have "notificationCount s' = v" "errorDidOccur s' = errorDidOccur s"
    using updateFavicon_fields [OF s'] by (simp_all add: super_setNotificationCount_def)
  moreover have "new_events s s' = new_events ?t s'"
    by (simp add: new_events_def super_setNotificationCount_def)
  then have "length (badge_calls (new_events s s')) = 1"
    using badge_calls_updateFavicon [OF s'] by simp
  ultimately show thesis using that by blast
qed

lemma setErrorStatus_same:
  "errorDidOccur s = e \<Longrightarrow> setErrorStatus badge e s = Inr s"
  by (simp add: setErrorStatus_def)

lemma setErrorStatus_changed:
  assumes "errorDidOccur s \<noteq> e"
  obtains s' where "setErrorStatus badge e s = Inr s'" and "errorDidOccur s' = e"
    and "notificationCount s' = notificationCount s"
    and "length (badge_calls (new_events s s')) = 1"
proof -
  let ?t = "super_setErrorStatus e s"
  obtain s' where s': "updateFavicon badge ?t = Inr s'"
    by (rule updateFavicon_cases)
  have "setErrorStatus badge e s = Inr s'"
    using assms s' by (simp add: setErrorStatus_def)
  moreover have "errorDidOccur s' = e" "notificationCount s' = notificationCount s"
    using updateFavicon_fields [OF s'] by (simp_all add: super_setErrorStatus_def)
  moreover have "new_events s s' = new_events ?t s'"
    by (simp add: new_events_def super_setErrorStatus_def)
  then have "length (badge_calls (new_events s s')) = 1"
    using badge_calls_updateFavicon [OF s'] by simp
  ultimately show thesis using that by blast
qed

lemma setNotificationCount_stored:
  obtains s' where "setNotificationCount badge v s = Inr s'" and "notificationCount s' = v"
proof (cases "notificationCount s = v")
  case True
  then show ?thesis using that setNotificationCount_same by blast
next
  case False
  then show ?thesis using that setNotificationCount_changed [of s v badge] by blast
qed

lemma setErrorStatus_stored:
  obtains s' where "setErrorStatus badge e s = Inr s'" and "errorDidOccur s' = e"
proof (cases "errorDidOccur s = e")
  case True
  then show ?thesis using that setErrorStatus_same by blast
next
  case False
  then show ?thesis using that setErrorStatus_changed [of s e badge] by blast
qed

text \<open>
  Claim C2. A setter called with the value already stored returns the state as it is:
  nothing is written and the renderer is not called. Called with another value it
  stores the value and calls the renderer exactly once. So a second call with the same
  value, whatever the renderer did on the first, leaves the state of the first call.
\<close>

theorem setters_render_on_change_only:
  "(notificationCount s = v \<longrightarrow> setNotificationCount badge v s = Inr s)
   \<and> (notificationCount s \<noteq> v \<longrightarrow>
        (\<exists>s'. setNotificationCount badge v s = Inr s' \<and> notificationCount s' = v \<and>
              length (badge_calls (new_events s s')) = 1))
   \<and> (\<exists>s'. setNotificationCount badge v s = Inr s' \<and>
             setNotificationCount badge' v s' = Inr s')
   \<and> (errorDidOccur s = e \<longrightarrow> setErrorStatus badge e s = Inr s)
   \<and> (errorDidOccur s \<noteq> e \<longrightarrow>
        (\<exists>s'. setErrorStatus badge e s = Inr s' \<and> errorDidOccur s' = e \<and>
              length (badge_calls (new_events s s')) = 1))
   \<and> (\<exists>s'. setErrorStatus badge e s = Inr s' \<and> setErrorStatus badge' e s' = Inr s')"
proof (intro conjI impI)
  show "setNotificationCount badge v s = Inr s" if "notificationCount s = v"
    using that by (rule setNotificationCount_same)
  show "\<exists>s'. setNotificationCount badge v s = Inr s' \<and> notificationCount s' = v \<and>
              length (badge_calls (new_events s s')) = 1" if "notificationCount s \<noteq> v"
    using setNotificationCount_changed [OF that, of badge] by metis
  show "\<exists>s'. setNotificationCount badge v s = Inr s' \<and>
             setNotificationCount badge' v s' = Inr s'"
    using setNotificationCount_stored [of badge v s] setNotificationCount_same by metis
  show "setErrorStatus badge e s = Inr s" if "errorDidOccur s = e"
    using that by (rule setErrorStatus_same)
  show "\<exists>s'. setErrorStatus badge e s = Inr s' \<and> errorDidOccur s' = e \<and>
              length (badge_calls (new_events s s')) = 1" if "errorDidOccur s \<noteq> e"
    using setErrorStatus_changed [OF that, of badge] by metis
  show "\<exists>s'. setErrorStatus badge e s = Inr s' \<and> setErrorStatus badge' e s' = Inr s'"
    using setErrorStatus_stored [of badge e s] setErrorStatus_same by metis
qed

theorem setters_render_on_change_only_witness:
  "notificationCount fresh \<noteq> 3
   \<and> (\<exists>s'. setNotificationCount badge_ok 3 fresh = Inr s' \<and> notificationCount s' = 3 \<and>
             length (badge_calls (new_events fresh s')) = 1)
   \<and> errorDidOccur fresh \<noteq> True
   \<and> (\<exists>s'. setErrorStatus badge_ok True fresh = Inr s' \<and> errorDidOccur s' = True \<and>
             length (badge_calls (new_events fresh s')) = 1)
   \<and> notificationCount (fresh\<lparr>notificationCount := 3\<rparr>) = 3
   \<and> setNotificationCount badge_ok 3 (fresh\<lparr>notificationCount := 3\<rparr>)
       = Inr (fresh\<lparr>notificationCount := 3\<rparr>)
   \<and> errorDidOccur (fresh\<lparr>errorDidOccur := True\<rparr>) = True
   \<and> setErrorStatus badge_ok True (fresh\<lparr>errorDidOccur := True\<rparr>)
       = Inr (fresh\<lparr>errorDidOccur := True\<rparr>)"
  using setters_render_on_change_only [of fresh 3 badge_ok badge_ok True]
    setters_render_on_change_only [of "fresh\<lparr>notificationCount := 3\<rparr>" 3 badge_ok badge_ok False]
    setters_render_on_change_only [of "fresh\<lparr>errorDidOccur := True\<rparr>" 0 badge_ok badge_ok True]
  by (simp add: fresh_def)

lemma setNotificationCount_thrown:
  assumes "notificationCount s \<noteq> v"
    and "badge (favicon s) (if errorDidOccur s then or_glyph v else Count v)
           (if errorDidOccur s then str ''#f00'' else str ''#d00'') = Inl (message, f)"
  shows "setNotificationCount badge v s =
     Inr (s\<lparr>notificationCount := v, favicon := f,
            trace := trace s @
              [Badge (if errorDidOccur s then or_glyph v else Count v)
                 (if errorDidOccur s then str ''#f00'' else str ''#d00''),
               Console_warn (str ''Failed to set badge count: '' @ message)]\<rparr>)"
  using assms
  by (cases "errorDidOccur s")
    (simp_all add: setNotificationCount_def super_setNotificationCount_def
      updateFavicon_returns Let_def)

lemma setErrorStatus_thrown:
  assumes "errorDidOccur s \<noteq> e"
    and "badge (favicon s)
           (if e then or_glyph (notificationCount s) else Count (notificationCount s))
           (if e then str ''#f00'' else str ''#d00'') = Inl (message, f)"
  shows "setErrorStatus badge e s =
     Inr (s\<lparr>errorDidOccur := e, favicon := f,
            trace := trace s @
              [Badge (if e then or_glyph (notificationCount s) else Count (notificationCount s))
                 (if e then str ''#f00'' else str ''#d00''),
               Console_warn (str ''Failed to set badge count: '' @ message)]\<rparr>)"
  using assms
  by (cases e)
    (simp_all add: setErrorStatus_def super_setErrorStatus_def updateFavicon_returns Let_def)

text \<open>
  Claim C9. Whatever the renderer does, a setter returns (it never ends in an
  exception) and the state it returns holds the new value. When the renderer throws on
  the call the setter makes, the state returned is the old one with the new value
  stored, the renderer's state as the throw left it, and two more events: the call of
  the renderer and the warning \<open>Failed to set badge count: \<close> with the exception's
  message.
\<close>

theorem renderer_exception_contained:
  "(\<exists>s'. setNotificationCount badge v s = Inr s' \<and> notificationCount s' = v)
   \<and> (\<exists>s'. setErrorStatus badge e s = Inr s' \<and> errorDidOccur s' = e)
   \<and> (notificationCount s \<noteq> v \<longrightarrow>
        badge (favicon s) (if errorDidOccur s then or_glyph v else Count v)
          (if errorDidOccur s then str ''#f00'' else str ''#d00'') = Inl (message, f) \<longrightarrow>
        setNotificationCount badge v s =
          Inr (s\<lparr>notificationCount := v, favicon := f,
                 trace := trace s @
                   [Badge (if errorDidOccur s then or_glyph v else Count v)
                      (if errorDidOccur s then str ''#f00'' else str ''#d00''),
                    Console_warn (str ''Failed to set badge count: '' @ message)]\<rparr>))
   \<and> (errorDidOccur s \<noteq> e \<longrightarrow>
        badge (favicon s)
          (if e then or_glyph (notificationCount s) else Count (notificationCount s))
          (if e then str ''#f00'' else str ''#d00'') = Inl (message, f) \<longrightarrow>
        setErrorStatus badge e s =
          Inr (s\<lparr>errorDidOccur := e, favicon := f,
                 trace := trace s @
                   [Badge (if e then or_glyph (notificationCount s)
                           else Count (notificationCount s))
                      (if e then str ''#f00'' else str ''#d00''),
                    Console_warn (str ''Failed to set badge count: '' @ message)]\<rparr>))"
proof (intro conjI impI)
  show "\<exists>s'. setNotificationCount badge v s = Inr s' \<and> notificationCount s' = v"
    using setNotificationCount_stored [of badge v s] by metis
  show "\<exists>s'. setErrorStatus badge e s = Inr s' \<and> errorDidOccur s' = e"
    using setErrorStatus_stored [of badge e s] by metis
qed (rule setNotificationCount_thrown setErrorStatus_thrown; assumption)+

theorem renderer_exception_contained_witness:
  "notificationCount fresh \<noteq> 7
   \<and> setNotificationCount badge_overflow 7 fresh =
       Inr (fresh\<lparr>notificationCount := 7,
              trace := [Badge (Count 7) (str ''#d00''),
                Console_warn
                  (str ''Failed to set badge count: Too many badges requests in queue.'')]\<rparr>)
   \<and> errorDidOccur fresh \<noteq> True
   \<and> setErrorStatus badge_overflow True fresh =
       Inr (fresh\<lparr>errorDidOccur := True,
              trace := [Badge (Glyph [0xD7]) (str ''#f00''),
                Console_warn
                  (str ''Failed to set badge count: Too many badges requests in queue.'')]\<rparr>)"
  using renderer_exception_contained
    [of badge_overflow 7 fresh True "str ''Too many badges requests in queue.''" "()"]
  by (simp add: fresh_def badge_overflow_def or_glyph_def times_glyph_def str_def)

section \<open>Version: fetching, asking and polling\<close>

text \<open>
  The model of \<open>trim\<close> takes off a run of whitespace at each end, and what is left
  neither starts nor ends with whitespace.
\<close>

lemma trim_decomposition:
  "\<exists>pre post. s = pre @ trim s @ post \<and>
     list_all is_js_whitespace pre \<and> list_all is_js_whitespace post"
proof -
  let ?t = "dropWhile is_js_whitespace s"
  have 1: "s = takeWhile is_js_whitespace s @ ?t" by simp
  have 2: "rev ?t =
      takeWhile is_js_whitespace (rev ?t) @ dropWhile is_js_whitespace (rev ?t)"
    by simp
  have "?t = rev (dropWhile is_js_whitespace (rev ?t)) @
      rev (takeWhile is_js_whitespace (rev ?t))"
    using arg_cong [OF 2, of rev] by (simp only: rev_append rev_rev_ident)
  then have 3: "?t = trim s @ rev (takeWhile is_js_whitespace (rev ?t))"
    by (simp add: trim_def)
  have "s = takeWhile is_js_whitespace s @ trim s @
      rev (takeWhile is_js_whitespace (rev ?t))"
    using 1 3 by metis
  moreover have "list_all is_js_whitespace (takeWhile is_js_whitespace s)"
    by (simp add: list_all_iff) (meson set_takeWhileD)
  moreover have "list_all is_js_whitespace (rev (takeWhile is_js_whitespace (rev ?t)))"
    by (simp add: list_all_iff) (meson set_takeWhileD)
  ultimately show ?thesis by blast
qed

lemma trim_ends:
  assumes "trim s \<noteq> []"
  shows "\<not> is_js_whitespace (hd (trim s)) \<and> \<not> is_js_whitespace (last (trim s))"
proof -
  let ?t = "dropWhile is_js_whitespace s"
  let ?u = "dropWhile is_js_whitespace (rev ?t)"
  have u: "?u \<noteq> []" using assms by (simp add: trim_def)
  then have a: "\<not> is_js_whitespace (hd ?u)" by (rule hd_dropWhile)
  have "last (trim s) = hd ?u" using u by (simp add: trim_def last_rev)
  with a have l: "\<not> is_js_whitespace (last (trim s))" by simp
  have t: "?t \<noteq> []"
  proof
    assume e: "?t = []"
    have "?u = []" by (subst e) simp
    with u show False by blast
  qed
  then have ht: "\<not> is_js_whitespace (hd ?t)" by (rule hd_dropWhile)
  have "hd (trim s) = last ?u" using u by (simp add: trim_def hd_rev)
  moreover have "last ?u = last (rev ?t)"
    using u by (metis append_Nil2 last_appendR takeWhile_dropWhile_id)
  moreover have "last (rev ?t) = hd ?t" using t by (simp add: last_rev)
  ultimately show ?thesis using ht l by simp
qed

text \<open>
  Claim C5. The version fetch issues one request, GET \<open>version\<close> with the query
  parameter \<open>cachebuster\<close> set to the time of the call, and changes nothing else. Its
  promise is resolved with the trimmed body exactly when there is no transport error
  and the status is from 200 to 299; otherwise it is rejected, with the transport
  error or else with the status.
\<close>

theorem getVersion_outcome:
  "snd (getVersion now (err, status, response_body) s) =
     s\<lparr>trace := trace s @
       [Http \<lparr>http_method = str ''GET'', url = str ''version'',
              qs = [(''cachebuster'', now)]\<rparr>]\<rparr>
   \<and> (fst (getVersion now (err, status, response_body) s) = Inr (trim response_body) \<longleftrightarrow>
        err = None \<and> 200 \<le> status \<and> status < 300)
   \<and> (\<not> (err = None \<and> 200 \<le> status \<and> status < 300) \<longrightarrow>
        fst (getVersion now (err, status, response_body) s) =
          Inl (case err of None \<Rightarrow> Status status | Some e \<Rightarrow> Transport e))"
  by (auto simp: getVersion_def getVersion_request_def emit_def)

theorem getVersion_outcome_witness:
  "fst (getVersion 1480000000000 (None, 200, str '' 1.2.3 '' @ [0xA]) fresh) = Inr (str ''1.2.3'')
   \<and> fst (getVersion 1480000000000 (None, 404, str ''Not Found'') fresh) = Inl (Status 404)
   \<and> fst (getVersion 1480000000000 (None, 300, str ''1.2.3'') fresh) = Inl (Status 300)
   \<and> fst (getVersion 1480000000000 (Some (str ''timeout''), 200, str ''1.2.3'') fresh)
       = Inl (Transport (str ''timeout''))
   \<and> trace (snd (getVersion 1480000000000 (None, 200, str '' 1.2.3 '' @ [0xA]) fresh)) =
       [Http \<lparr>http_method = str ''GET'', url = str ''version'',
              qs = [(''cachebuster'', 1480000000000)]\<rparr>]"
  using getVersion_outcome [of 1480000000000 None 200 "str '' 1.2.3 '' @ [0xA]" fresh]
    getVersion_outcome [of 1480000000000 None 404 "str ''Not Found''" fresh]
    getVersion_outcome [of 1480000000000 None 300 "str ''1.2.3''" fresh]
    getVersion_outcome [of 1480000000000 "Some (str ''timeout'')" 200 "str ''1.2.3''" fresh]
  by (simp add: fresh_def trim_def str_def is_js_whitespace_def)

text \<open>
  Claim C4. With a version stored, \<open>getAppVersion\<close> resolves with it and leaves the
  state as it is, the trace too: no request is made. With none stored it makes exactly
  one request and its promise is that of the fetch. In both cases the fields of the
  adapter are as before, so that with none stored every call fetches again.
\<close>

theorem getAppVersion_cached_or_fetched:
  "(runningVersion s = Some v \<longrightarrow> getAppVersion now reply s = (Inr v, s))
   \<and> (runningVersion s = None \<longrightarrow>
        getAppVersion now reply s =
          (getVersion_callback reply,
           s\<lparr>trace := trace s @ [Http (getVersion_request now)]\<rparr>))
   \<and> runningVersion (snd (getAppVersion now reply s)) = runningVersion s
   \<and> notificationCount (snd (getAppVersion now reply s)) = notificationCount s
   \<and> errorDidOccur (snd (getAppVersion now reply s)) = errorDidOccur s
   \<and> favicon (snd (getAppVersion now reply s)) = favicon s"
  by (simp add: getAppVersion_def getVersion_def emit_def split: option.splits)

theorem getAppVersion_cached_or_fetched_witness:
  "runningVersion (fresh\<lparr>runningVersion := Some (str ''1.2.3'')\<rparr>) = Some (str ''1.2.3'')
   \<and> getAppVersion 5 (None, 200, str ''1.2.4'') (fresh\<lparr>runningVersion := Some (str ''1.2.3'')\<rparr>)
       = (Inr (str ''1.2.3''), fresh\<lparr>runningVersion := Some (str ''1.2.3'')\<rparr>)
   \<and> runningVersion fresh = None
   \<and> getAppVersion 5 (None, 200, str ''1.2.4'') fresh
       = (Inr (str ''1.2.4''), fresh\<lparr>trace := [Http (getVersion_request 5)]\<rparr>)"
  using getAppVersion_cached_or_fetched
      [of "fresh\<lparr>runningVersion := Some (str ''1.2.3'')\<rparr>" "str ''1.2.3''" 5
        "(None, 200, str ''1.2.4'')"]
    getAppVersion_cached_or_fetched [of fresh "[]" 5 "(None, 200, str ''1.2.4'')"]
  by (simp add: fresh_def trim_def str_def is_js_whitespace_def)

lemma pollForUpdate_rejected:
  assumes "getVersion_callback reply = Inl err"
  shows "pollForUpdate now reply s =
     Inr (s\<lparr>trace := trace s @ [Http (getVersion_request now),
            Console_error (str ''Failed to poll for update'') err]\<rparr>)"
  using assms by (simp add: pollForUpdate_def getVersion_def promise_done_def emit_def)

lemma pollForUpdate_first:
  assumes "getVersion_callback reply = Inr ver" and "runningVersion s = None"
  shows "pollForUpdate now reply s =
     Inr (s\<lparr>runningVersion := Some ver,
            trace := trace s @ [Http (getVersion_request now)]\<rparr>)"
  using assms by (simp add: pollForUpdate_def getVersion_def promise_done_def emit_def)

lemma pollForUpdate_later:
  assumes "getVersion_callback reply = Inr ver" and "runningVersion s = Some current"
  shows "pollForUpdate now reply s =
     Inr (s\<lparr>trace := trace s @ Http (getVersion_request now) #
            (if current \<noteq> ver then
               [Dispatch [(''action'', str ''new_version''),
                          (''currentVersion'', current), (''newVersion'', ver)]]
             else [])\<rparr>)"
  using assms by (simp add: pollForUpdate_def getVersion_def promise_done_def emit_def)

lemma pollForUpdate_returns: "\<not> isl (pollForUpdate now reply s)"
  by (simp add: pollForUpdate_def getVersion_def promise_done_def split: sum.splits)

lemma polls_returns: "\<not> isl (polls rs s)"
proof (induction rs arbitrary: s)
  case Nil
  then show ?case by simp
next
  case (Cons r rs)
  obtain now reply where r: "r = (now, reply)" by (cases r)
  obtain s' where "pollForUpdate now reply s = Inr s'"
    using pollForUpdate_returns [of now reply s] by (cases "pollForUpdate now reply s") auto
  then show ?case using Cons.IH [of s'] by (simp add: r)
qed

text \<open>
  Claim C6. When the fetch fails (a transport error, or a status outside 200 to 299),
  \<open>pollForUpdate\<close> returns: it adds the request and the error log to the trace and
  changes nothing else, so no signal is sent and \<open>runningVersion\<close> is as before. For
  the same reply \<open>getAppVersion\<close>, with no version stored, gives a promise rejected with
  the failure.
\<close>

theorem fetch_failure_asymmetry:
  "(err \<noteq> None \<or> status < 200 \<or> 300 \<le> status) \<longrightarrow>
     pollForUpdate now (err, status, response_body) s =
       Inr (s\<lparr>trace := trace s @ [Http (getVersion_request now),
              Console_error (str ''Failed to poll for update'')
                (case err of None \<Rightarrow> Status status | Some e \<Rightarrow> Transport e)]\<rparr>)
     \<and> (runningVersion s = None \<longrightarrow>
          fst (getAppVersion now (err, status, response_body) s) =
            Inl (case err of None \<Rightarrow> Status status | Some e \<Rightarrow> Transport e))"
proof (intro impI conjI)
  assume "err \<noteq> None \<or> status < 200 \<or> 300 \<le> status"
  then have r: "getVersion_callback (err, status, response_body) =
      Inl (case err of None \<Rightarrow> Status status | Some e \<Rightarrow> Transport e)"
    by auto
  show "pollForUpdate now (err, status, response_body) s =
       Inr (s\<lparr>trace := trace s @ [Http (getVersion_request now),
              Console_error (str ''Failed to poll for update'')
                (case err of None \<Rightarrow> Status status | Some e \<Rightarrow> Transport e)]\<rparr>)"
    by (rule pollForUpdate_rejected [OF r])
  show "fst (getAppVersion now (err, status, response_body) s) =
            Inl (case err of None \<Rightarrow> Status status | Some e \<Rightarrow> Transport e)"
    if "runningVersion s = None"
    using that r by (simp add: getAppVersion_def getVersion_def)
qed

theorem fetch_failure_asymmetry_witness:
  "(300 :: int) \<le> 503
   \<and> pollForUpdate 7 (None, 503, str ''Service Unavailable'') fresh =
       Inr (fresh\<lparr>trace := [Http (getVersion_request 7),
              Console_error (str ''Failed to poll for update'') (Status 503)]\<rparr>)
   \<and> runningVersion fresh = None
   \<and> fst (getAppVersion 7 (None, 503, str ''Service Unavailable'') fresh) = Inl (Status 503)
   \<and> Some (str ''CORS request rejected'') \<noteq> None
   \<and> pollForUpdate 8 (Some (str ''CORS request rejected''), 0, []) fresh =
       Inr (fresh\<lparr>trace := [Http (getVersion_request 8),
              Console_error (str ''Failed to poll for update'')
                (Transport (str ''CORS request rejected''))]\<rparr>)
   \<and> fst (getAppVersion 8 (Some (str ''CORS request rejected''), 0, []) fresh) =
       Inl (Transport (str ''CORS request rejected''))"
  using fetch_failure_asymmetry [of None 503 7 "str ''Service Unavailable''" fresh]
    fetch_failure_asymmetry [of "Some (str ''CORS request rejected'')" 0 8 "[]" fresh]
  by (simp add: fresh_def)

lemma polls_later:
  assumes "runningVersion s = Some v0"
    and "\<forall>(now, status, b) \<in> set later. 200 \<le> status \<and> status < 300"
  shows "polls (map (\<lambda>(now, status, b). (now, None, status, b)) later) s =
     Inr (s\<lparr>trace := trace s @ later_polls v0 later\<rparr>)"
  using assms
proof (induction later arbitrary: s)
  case Nil
  then show ?case by (simp add: later_polls_def)
next
  case (Cons x later)
  let ?f = "\<lambda>(now, status, b). (now, None :: jsstring option, status, b)"
  obtain now status b where x: "x = (now, status, b)" by (cases x)
  have ok: "getVersion_callback (None, status, b) = Inr (trim b)"
    using Cons.prems(2) x by simp
  let ?s = "s\<lparr>trace := trace s @ Http (getVersion_request now) #
            (if v0 \<noteq> trim b then
               [Dispatch [(''action'', str ''new_version''),
                          (''currentVersion'', v0), (''newVersion'', trim b)]]
             else [])\<rparr>"
  have step: "pollForUpdate now (None, status, b) s = Inr ?s"
    by (rule pollForUpdate_later [OF ok Cons.prems(1)])
  have "map ?f (x # later) = (now, None, status, b) # map ?f later"
    by (simp add: x)
  then have "polls (map ?f (x # later)) s = polls (map ?f later) ?s"
    by (simp only: polls.simps step sum.case)
  also have "\<dots> = Inr (?s\<lparr>trace := trace ?s @ later_polls v0 later\<rparr>)"
    by (rule Cons.IH) (use Cons.prems in simp_all)
  also have "\<dots> = Inr (s\<lparr>trace := trace s @ later_polls v0 (x # later)\<rparr>)"
    by (simp add: later_polls_def x)
  finally show ?case .
qed

text \<open>
  Claim C1. Take an adapter with no version stored and any run of polls whose fetches
  all succeed. The loop returns. The first poll stores what it fetched and sends
  nothing. Each later poll sends \<open>new_version\<close>, with the stored version as
  \<open>currentVersion\<close> and what it fetched as \<open>newVersion\<close>, when the two differ, every
  time they differ, and sends nothing when they are equal; none of them changes the
  stored version or anything else than the trace.
\<close>

theorem polls_signal_every_divergence:
  assumes "runningVersion s = None"
    and "200 \<le> status0 \<and> status0 < 300"
    and "\<forall>(now, status, b) \<in> set later. 200 \<le> status \<and> status < 300"
  shows "polls ((now0, None, status0, b0) #
                map (\<lambda>(now, status, b). (now, None, status, b)) later) s =
     Inr (s\<lparr>runningVersion := Some (trim b0),
            trace := trace s @ Http (getVersion_request now0) #
              concat (map (\<lambda>(now, status, b).
                Http (getVersion_request now) #
                  (if trim b0 \<noteq> trim b then
                     [Dispatch [(''action'', str ''new_version''),
                                (''currentVersion'', trim b0), (''newVersion'', trim b)]]
                   else [])) later)\<rparr>)"
proof -
  let ?f = "\<lambda>(now, status, b). (now, None :: jsstring option, status, b)"
  have ok: "getVersion_callback (None, status0, b0) = Inr (trim b0)"
    using assms(2) by simp
  let ?s = "s\<lparr>runningVersion := Some (trim b0),
              trace := trace s @ [Http (getVersion_request now0)]\<rparr>"
  have step: "pollForUpdate now0 (None, status0, b0) s = Inr ?s"
    by (rule pollForUpdate_first [OF ok assms(1)])
  have "polls ((now0, None, status0, b0) # map ?f later) s = polls (map ?f later) ?s"
    by (simp only: polls.simps step sum.case)
  also have "\<dots> = Inr (?s\<lparr>trace := trace ?s @ later_polls (trim b0) later\<rparr>)"
    by (rule polls_later) (use assms(3) in simp_all)
  also have "\<dots> = Inr (s\<lparr>runningVersion := Some (trim b0),
            trace := trace s @ Http (getVersion_request now0) #
              later_polls (trim b0) later\<rparr>)"
    by simp
  finally show ?thesis by (simp only: later_polls_def)
qed

theorem polls_signal_every_divergence_witness:
  "runningVersion fresh = None \<and>
   polls [(1000, None, 200, str ''1.2.3'' @ [0xA]), (2000, None, 200, str ''1.2.4'' @ [0xA]),
          (3000, None, 204, str '' 1.2.3''), (4000, None, 200, str ''1.2.4'')] fresh =
     Inr (fresh\<lparr>runningVersion := Some (str ''1.2.3''),
            trace := [Http (getVersion_request 1000),
                      Http (getVersion_request 2000),
                      Dispatch [(''action'', str ''new_version''),
                                (''currentVersion'', str ''1.2.3''),
                                (''newVersion'', str ''1.2.4'')],
                      Http (getVersion_request 3000),
                      Http (getVersion_request 4000),
                      Dispatch [(''action'', str ''new_version''),
                                (''currentVersion'', str ''1.2.3''),
                                (''newVersion'', str ''1.2.4'')]]\<rparr>)"
  using polls_signal_every_divergence
    [of fresh 200
      "[(2000, 200, str ''1.2.4'' @ [0xA]), (3000, 204, str '' 1.2.3''), (4000, 200, str ''1.2.4'')]"
      1000 "str ''1.2.3'' @ [0xA]"]
  by (simp add: fresh_def trim_def str_def is_js_whitespace_def)

section \<open>Notifications: the click and the timer\<close>

lemma close_notification_simps:
  "trace (close_notification n s) = trace s @ [Notification_close n]"
  "timers (close_notification n s) = timers s"
  "length (notifications (close_notification n s)) = length (notifications s)"
  "notifications (close_notification n s) =
     (notifications s)[n := (notifications s ! n)\<lparr>closed := True\<rparr>]"
  by (simp_all add: close_notification_def emit_def)

lemma close_notification_nth:
  "notifications (close_notification n s) ! i =
     (if i = n \<and> n < length (notifications s) then (notifications s ! n)\<lparr>closed := True\<rparr>
      else notifications s ! i)"
proof (cases "n < length (notifications s)")
  case True
  then show ?thesis by (auto simp: close_notification_simps nth_list_update)
next
  case False
  then show ?thesis by (simp add: close_notification_simps list_update_beyond)
qed

lemma run_timers: "timers (run c s) = timers s"
  by (cases c) (simp_all add: close_notification_simps emit_def Let_def)

lemma run_length: "length (notifications (run c s)) = length (notifications s)"
  by (cases c) (simp_all add: close_notification_simps emit_def Let_def)

lemma run_onclick:
  "onclick (notifications (run c s) ! i) = onclick (notifications s ! i)"
  by (cases c) (simp_all add: close_notification_nth emit_def Let_def)

lemma run_closed:
  "closed (notifications s ! i) \<Longrightarrow> closed (notifications (run c s) ! i)"
  by (cases c) (simp_all add: close_notification_nth emit_def Let_def)

lemma run_closes:
  "n < length (notifications s) \<Longrightarrow> closed (notifications (run (Autoclose n) s) ! n)"
  "n < length (notifications s) \<Longrightarrow> closed (notifications (run (Onclick n room) s) ! n)"
  by (simp_all add: close_notification_nth emit_def Let_def)

lemma run_Onclick_trace:
  "trace (run (Onclick n room) s) =
     trace s @ [Dispatch [(''action'', str ''view_room''), (''room_id'', roomId room)],
                Focus, Notification_close n]"
  by (simp add: close_notification_simps emit_def Let_def)

lemma fold_run_length:
  "length (notifications (fold (\<lambda>(c, d). run c) due s)) = length (notifications s)"
  by (induction due arbitrary: s) (simp_all add: run_length split: prod.splits)

lemma fold_run_timers: "timers (fold (\<lambda>(c, d). run c) due s) = timers s"
  by (induction due arbitrary: s) (simp_all add: run_timers split: prod.splits)

lemma fold_run_onclick:
  "onclick (notifications (fold (\<lambda>(c, d). run c) due s) ! i) = onclick (notifications s ! i)"
  by (induction due arbitrary: s) (simp_all add: run_onclick split: prod.splits)

lemma fold_run_closed:
  "closed (notifications s ! i) \<Longrightarrow>
   closed (notifications (fold (\<lambda>(c, d). run c) due s) ! i)"
proof (induction due arbitrary: s)
  case Nil
  then show ?case by simp
next
  case (Cons x due)
  obtain c d where x: "x = (c, d)" by (cases x)
  have "closed (notifications (fold (\<lambda>(c, d). run c) due (run c s)) ! i)"
    by (rule Cons.IH) (use Cons.prems in \<open>simp add: run_closed del: run.simps\<close>)
  then show ?case by (simp add: x del: run.simps)
qed

lemma fold_run_closes:
  "n < length (notifications s) \<Longrightarrow> (Autoclose n, d) \<in> set due \<Longrightarrow>
   closed (notifications (fold (\<lambda>(c, d). run c) due s) ! n)"
proof (induction due arbitrary: s)
  case Nil
  then show ?case by simp
next
  case (Cons x due)
  obtain c d' where x: "x = (c, d')" by (cases x)
  show ?case
  proof (cases "x = (Autoclose n, d)")
    case True
    have "closed (notifications (fold (\<lambda>(c, d). run c) due (run (Autoclose n) s)) ! n)"
      by (rule fold_run_closed) (use Cons.prems in \<open>simp add: run_closes del: run.simps\<close>)
    then show ?thesis using True by (simp del: run.simps)
  next
    case False
    then have "(Autoclose n, d) \<in> set due" using Cons.prems by simp
    moreover have "n < length (notifications (run c s))"
      using Cons.prems(1) by (simp add: run_length del: run.simps)
    ultimately have "closed (notifications (fold (\<lambda>(c, d). run c) due (run c s)) ! n)"
      by (intro Cons.IH)
    then show ?thesis by (simp add: x del: run.simps)
  qed
qed

lemma pending_iff:
  "pending n room e s \<longleftrightarrow>
     n < length (notifications s) \<and> onclick (notifications s ! n) = Some (Onclick n room) \<and>
     (closed (notifications s ! n) \<or>
      (\<exists>d. (Autoclose n, d) \<in> set (timers s) \<and> 0 < d \<and> d + e \<le> 5000))"
  by (auto simp: pending_def list_ex_iff)

lemma pending_click: "pending n room e s \<Longrightarrow> pending n room e (click m s)"
  by (auto simp: pending_iff click_def run_length run_onclick run_closed run_timers
      split: option.splits)

lemma advance_simps:
  "length (notifications (advance dt s)) = length (notifications s)"
  "onclick (notifications (advance dt s) ! i) = onclick (notifications s ! i)"
  "timers (advance dt s) =
     map (\<lambda>(c, d). (c, d - dt)) (filter (\<lambda>(c, d). \<not> d \<le> dt) (timers s))"
  by (simp_all add: advance_def Let_def fold_run_length fold_run_onclick fold_run_timers)

lemma advance_closed:
  "closed (notifications s ! i) \<Longrightarrow> closed (notifications (advance dt s) ! i)"
  by (simp add: advance_def Let_def fold_run_closed)

lemma advance_closes:
  "n < length (notifications s) \<Longrightarrow> (Autoclose n, d) \<in> set (timers s) \<Longrightarrow> d \<le> dt \<Longrightarrow>
   closed (notifications (advance dt s) ! n)"
  unfolding advance_def Let_def
  by (rule fold_run_closes [where d = d]) simp_all

lemma pending_advance:
  assumes "pending n room e s"
  shows "pending n room (e + dt) (advance dt s)"
proof -
  from assms have n: "n < length (notifications s)"
    and h: "onclick (notifications s ! n) = Some (Onclick n room)"
    by (simp_all add: pending_iff)
  consider (closed) "closed (notifications s ! n)"
    | (due) d where "(Autoclose n, d) \<in> set (timers s)" "d \<le> dt"
    | (waiting) d where "(Autoclose n, d) \<in> set (timers s)" "\<not> d \<le> dt" "d + e \<le> 5000"
    using assms by (auto simp: pending_iff)
  then show ?thesis
  proof cases
    case closed
    then show ?thesis using n h by (simp add: pending_iff advance_simps advance_closed)
  next
    case due
    then show ?thesis using n h by (simp add: pending_iff advance_simps advance_closes)
  next
    case waiting
    then have "(Autoclose n, d - dt) \<in> set (timers (advance dt s))"
      by (force simp: advance_simps)
    moreover have "0 < d - dt" "d - dt + (e + dt) \<le> 5000" using waiting by simp_all
    ultimately show ?thesis using n h by (auto simp: pending_iff advance_simps)
  qed
qed

lemma pending_host: "pending n room e s \<Longrightarrow> pending n room (e + elapsed es) (host es s)"
proof (induction es arbitrary: e s rule: elapsed.induct)
  case 1
  then show ?case by simp
next
  case (2 m es)
  then show ?case by (simp add: pending_click)
next
  case (3 dt es)
  from pending_advance [OF "3.prems", of dt] have "pending n room (e + dt) (advance dt s)" .
  from "3.IH" [OF this] show ?case by (simp add: add.assoc)
qed

lemma displayNotification_simps:
  "notifications (displayNotification ttl msg avatarUrl room s) =
     notifications s @
       [\<lparr>title = ttl, body = msg, icon = avatarUrl, tag = str ''vector'', silent = True,
         onclick = Some (Onclick (length (notifications s)) room), closed = False\<rparr>]"
  "timers (displayNotification ttl msg avatarUrl room s) =
     timers s @ [(Autoclose (length (notifications s)), 5000)]"
  "trace (displayNotification ttl msg avatarUrl room s) = trace s"
  by (simp_all add: displayNotification_def Let_def)

lemma pending_displayNotification:
  "pending (length (notifications s)) room 0 (displayNotification ttl msg avatarUrl room s)"
  by (auto simp: pending_iff displayNotification_simps)

text \<open>
  Claim C8. \<open>displayNotification\<close> makes one more notification, silent and tagged
  \<open>vector\<close>, with a click handler, and sets one timer of 5000 ms. After any clicks and
  any passing of time since, a click on it sends \<open>view_room\<close> with the room's id, then
  focuses the window, then closes the notification. And once 5000 ms have gone by the
  notification is closed, whatever was clicked or not.
\<close>

theorem displayNotification_click_and_timeout:
  fixes s :: "'f platform" and ttl msg avatarUrl :: jsstring and room :: room
    and es :: "host_event list"
  defines "n \<equiv> length (notifications s)"
  defines "s1 \<equiv> displayNotification ttl msg avatarUrl room s"
  defines "s2 \<equiv> host es s1"
  shows "notifications s1 = notifications s @
           [\<lparr>title = ttl, body = msg, icon = avatarUrl, tag = str ''vector'', silent = True,
             onclick = Some (Onclick n room), closed = False\<rparr>]
    \<and> timers s1 = timers s @ [(Autoclose n, 5000)]
    \<and> trace (click n s2) =
        trace s2 @ [Dispatch [(''action'', str ''view_room''), (''room_id'', roomId room)],
                    Focus, Notification_close n]
    \<and> closed (notifications (click n s2) ! n)
    \<and> (5000 \<le> elapsed es \<longrightarrow> closed (notifications s2 ! n))"
proof -
  have p: "pending n room (elapsed es) s2"
    using pending_host [OF pending_displayNotification, where es = es]
    by (simp add: n_def s1_def s2_def)
  then have n: "n < length (notifications s2)"
    and h: "onclick (notifications s2 ! n) = Some (Onclick n room)"
    by (simp_all add: pending_iff)
  have c: "click n s2 = run (Onclick n room) s2"
    using n h by (simp add: click_def)
  have 1: "notifications s1 = notifications s @
           [\<lparr>title = ttl, body = msg, icon = avatarUrl, tag = str ''vector'', silent = True,
             onclick = Some (Onclick n room), closed = False\<rparr>]"
    by (simp add: s1_def n_def displayNotification_simps)
  have 2: "timers s1 = timers s @ [(Autoclose n, 5000)]"
    by (simp add: s1_def n_def displayNotification_simps)
  have 3: "trace (click n s2) =
        trace s2 @ [Dispatch [(''action'', str ''view_room''), (''room_id'', roomId room)],
                    Focus, Notification_close n]"
    by (simp only: c run_Onclick_trace)
  have 4: "closed (notifications (click n s2) ! n)"
    by (simp only: c run_closes(2) [OF n])
  have 5: "5000 \<le> elapsed es \<longrightarrow> closed (notifications s2 ! n)"
    using p by (auto simp: pending_iff)
  from 1 2 3 4 5 show ?thesis by blast
qed

theorem displayNotification_click_and_timeout_witness:
  "trace (click 0 (displayNotification (str ''Alice'') (str ''hello'') [] lobby fresh)) =
     [Dispatch [(''action'', str ''view_room''), (''room_id'', str ''!lobby:matrix.org'')],
      Focus, Notification_close 0]
   \<and> closed (notifications
        (click 0 (displayNotification (str ''Alice'') (str ''hello'') [] lobby fresh)) ! 0)
   \<and> 5000 \<le> elapsed [Advance 2000, Click 0, Advance 3000]
   \<and> closed (notifications (host [Advance 2000, Click 0, Advance 3000]
        (displayNotification (str ''Alice'') (str ''hello'') [] lobby fresh)) ! 0)
   \<and> 5000 \<le> elapsed [Advance 5000]
   \<and> closed (notifications (host [Advance 5000]
        (displayNotification (str ''Alice'') (str ''hello'') [] lobby fresh)) ! 0)"
  using displayNotification_click_and_timeout
      [where s = fresh and ttl = "str ''Alice''" and msg = "str ''hello''" and avatarUrl = "[]"
        and room = lobby and es = "[Advance 2000, Click 0, Advance 3000]"]
    displayNotification_click_and_timeout
      [where s = fresh and ttl = "str ''Alice''" and msg = "str ''hello''" and avatarUrl = "[]"
        and room = lobby and es = "[Advance 5000]"]
    displayNotification_click_and_timeout
      [where s = fresh and ttl = "str ''Alice''" and msg = "str ''hello''" and avatarUrl = "[]"
        and room = lobby and es = "[]"]
  by (simp add: fresh_def lobby_def displayNotification_simps)

section \<open>Environment: when screen capture is refused\<close>

text \<open>
  Claim C10. Take the window away from any environment, whatever its location was:
  the result is the message. For a page on https that is another result than with
  the window, so whether there is a window is an input of its own.
\<close>

theorem screenCaptureErrorString_without_window:
  "screenCaptureErrorString (g\<lparr>window := None\<rparr>) =
     Some (str ''You need to be using HTTPS to place a screen-sharing call.'')
   \<and> (location_protocol g = Some (str ''https:'') \<longrightarrow>
        screenCaptureErrorString (g\<lparr>window := None\<rparr>) \<noteq> screenCaptureErrorString g)"
  by (auto simp: screenCaptureErrorString_def location_protocol_def split: option.splits)

theorem screenCaptureErrorString_without_window_witness:
  "location_protocol https_page = Some (str ''https:'')
   \<and> screenCaptureErrorString (https_page\<lparr>window := None\<rparr>) =
       Some (str ''You need to be using HTTPS to place a screen-sharing call.'')
   \<and> screenCaptureErrorString https_page = None"
  using screenCaptureErrorString_without_window [of https_page]
  by (simp add: https_page_def location_protocol_def screenCaptureErrorString_def)

text \<open>
  Claim C7. The transport scheme of an environment is what
  \<open>global.window.location.protocol\<close> reads, and none where there is no window. The
  result is the fixed message exactly when that scheme is not \<open>https:\<close>, and null exactly
  when it is \<open>https:\<close>. Two environments with the same scheme give the same result,
  whatever else differs between them.
\<close>

theorem screenCaptureErrorString_by_scheme:
  "(screenCaptureErrorString g =
      Some (str ''You need to be using HTTPS to place a screen-sharing call.'') \<longleftrightarrow>
    location_protocol g \<noteq> Some (str ''https:''))
   \<and> (screenCaptureErrorString g = None \<longleftrightarrow> location_protocol g = Some (str ''https:''))
   \<and> (location_protocol g = location_protocol g' \<longrightarrow>
        screenCaptureErrorString g = screenCaptureErrorString g')"
  by (auto simp: location_protocol_def screenCaptureErrorString_def split: option.splits)

theorem screenCaptureErrorString_by_scheme_witness:
  "location_protocol https_page = Some (str ''https:'')
   \<and> screenCaptureErrorString https_page = None
   \<and> location_protocol http_page \<noteq> Some (str ''https:'')
   \<and> screenCaptureErrorString http_page =
       Some (str ''You need to be using HTTPS to place a screen-sharing call.'')
   \<and> location_protocol no_window \<noteq> Some (str ''https:'')
   \<and> screenCaptureErrorString no_window =
       Some (str ''You need to be using HTTPS to place a screen-sharing call.'')
   \<and> location_protocol http_page =
       location_protocol (http_page\<lparr>window := Some \<lparr>location =
         \<lparr>protocol = str ''http:'', href = str ''http://example.org/''\<rparr>\<rparr>\<rparr>)
   \<and> screenCaptureErrorString http_page =
       screenCaptureErrorString (http_page\<lparr>window := Some \<lparr>location =
         \<lparr>protocol = str ''http:'', href = str ''http://example.org/''\<rparr>\<rparr>\<rparr>)"
  using screenCaptureErrorString_by_scheme [of https_page https_page]
    screenCaptureErrorString_by_scheme [of no_window no_window]
    screenCaptureErrorString_by_scheme [of http_page
      "http_page\<lparr>window := Some \<lparr>location =
         \<lparr>protocol = str ''http:'', href = str ''http://example.org/''\<rparr>\<rparr>\<rparr>"]
  by (simp add: https_page_def http_page_def no_window_def location_protocol_def
      screenCaptureErrorString_def str_def)

end
